theory Spec2Isabelle
  imports Main "HOL-Library.Word"
begin

unbundle bit_operations_syntax

section \<open>The budget ledger service (main.go)\<close>

text \<open>
  A shallow embedding of the current variant of \<^verbatim>\<open>main.go\<close> (the one with a
  balance and a budget). Go's \<^verbatim>\<open>int32\<close> and \<^verbatim>\<open>uint32\<close> are 32-bit words: the
  conversions \<^verbatim>\<open>int32(x)\<close> and \<^verbatim>\<open>uint32(x)\<close> keep the bit pattern, \<open>+\<close> and \<open>-\<close>
  wrap around, and the signed comparisons of the source are \<open><s\<close> and \<open>\<le>s\<close>.
\<close>

type_synonym int32 = "32 word"
type_synonym uint32 = "32 word"
type_synonym byte = "8 word"

definition maxBalance :: int32 where
  "maxBalance = 2000000000"

subsection \<open>Audit lines, process log, errors\<close>

text \<open>
  A log file is the list of lines handed to \<^verbatim>\<open>ThreadSafeLogger.Log\<close>, oldest first.
  A line is kept as the tuple of the arguments of its format string:
  \<^verbatim>\<open>"%s,%s,%s,%s,%d\n"\<close> (date, time, user, action, amount) for a transaction and
  \<^verbatim>\<open>"%s,%s,%s,%s\n"\<close> (date, time, user, ip) for an unauthorized access.
\<close>

type_synonym trans_line = "string \<times> string \<times> string \<times> string \<times> int32"
type_synonym unauth_line = "string \<times> string \<times> string \<times> string"

definition Log :: "'a list \<Rightarrow> 'a \<Rightarrow> 'a list" where
  "Log file line = file @ [line]"

text \<open>The errors of \<^verbatim>\<open>loadData\<close> and \<^verbatim>\<open>saveData\<close>.\<close>

datatype io_error =
    ReadError
  | OpenError
  | WriteError
  | SyncError
  | InvalidDataLength nat

text \<open>What the process writes with the standard \<^verbatim>\<open>log\<close> package.\<close>

datatype log_msg =
    Migrated
  | WarnLoadFailed io_error
  | ErrorSaving io_error

subsection \<open>Server state and its surroundings\<close>

record Server =
  balance :: int32
  budget :: int32
  users :: "string \<rightharpoonup> bool"
  transLogger :: "trans_line list"
  unauthLogger :: "unauth_line list"

text \<open>
  The world of one process: the \<^verbatim>\<open>Server\<close> struct, the contents of \<^verbatim>\<open>budget.dat\<close>
  (\<open>None\<close> when the file does not exist) and the process log.
\<close>

record world =
  server :: Server
  dbFile :: "byte list option"
  stdlog :: "log_msg list"

text \<open>
  What the operating system does during one call: the clock read by \<^verbatim>\<open>time.Now()\<close>
  (already formatted as date and time), whether \<^verbatim>\<open>os.ReadFile\<close> fails with an error
  other than "not exist", and which step of \<^verbatim>\<open>saveData\<close> fails, if any
  (\<^verbatim>\<open>os.OpenFile\<close>, \<^verbatim>\<open>f.Write\<close> after the given number of bytes, \<^verbatim>\<open>f.Sync\<close>).
\<close>

datatype save_fault = OpenFault | WriteFault nat | SyncFault

record env =
  dateStr :: string
  timeStr :: string
  read_fails :: bool
  save_fault :: "save_fault option"

subsection \<open>Requests and responses\<close>

text \<open>
  \<open>Authorization\<close> is \<^verbatim>\<open>r.Header.Get("Authorization")\<close> (empty when the header is
  absent). \<open>Body\<close> is the outcome of \<^verbatim>\<open>json.NewDecoder(r.Body).Decode(&req)\<close> for the
  handler's one-field request struct: \<open>None\<close> when \<^verbatim>\<open>Decode\<close> returns an error
  (which includes a number outside int32), otherwise the decoded field. A response is
  its status code and its body; response headers (CORS, Content-Type) are left out.
\<close>

record request =
  Method :: string
  Authorization :: string
  RemoteAddr :: string
  Body :: "int32 option"

datatype resp_body =
    NoBody
  | ErrorText string
  | PlainInt int32
  | Json int32 int32

record response =
  status :: nat
  payload :: resp_body

definition http_Error :: "string \<Rightarrow> nat \<Rightarrow> response" where
  "http_Error msg code = \<lparr>status = code, payload = ErrorText msg\<rparr>"

subsection \<open>encoding/binary, little endian\<close>

definition PutUint32 :: "uint32 \<Rightarrow> byte list" where
  "PutUint32 v =
     [ucast v, ucast (drop_bit 8 v), ucast (drop_bit 16 v), ucast (drop_bit 24 v)]"

definition Uint32 :: "byte list \<Rightarrow> uint32" where
  "Uint32 b =
     ucast (b ! 0) OR push_bit 8 (ucast (b ! 1)) OR push_bit 16 (ucast (b ! 2))
       OR push_bit 24 (ucast (b ! 3))"

subsection \<open>Persistence\<close>

definition set_balance :: "int32 \<Rightarrow> world \<Rightarrow> world" where
  "set_balance v w = w\<lparr>server := (server w)\<lparr>balance := v\<rparr>\<rparr>"

definition set_budget :: "int32 \<Rightarrow> world \<Rightarrow> world" where
  "set_budget v w = w\<lparr>server := (server w)\<lparr>budget := v\<rparr>\<rparr>"

definition log_Print :: "log_msg \<Rightarrow> world \<Rightarrow> world" where
  "log_Print m w = w\<lparr>stdlog := stdlog w @ [m]\<rparr>"

text \<open>
  \<^verbatim>\<open>saveData\<close>: the file is opened with \<^verbatim>\<open>O_TRUNC\<close>, so a failed open leaves it as it
  was, a failed write leaves the bytes that reached it, and a failed sync leaves all
  eight bytes but reports an error.
\<close>

definition saveData :: "env \<Rightarrow> world \<Rightarrow> world \<times> io_error option" where
  "saveData e w =
     (let data = PutUint32 (balance (server w)) @ PutUint32 (budget (server w)) in
      case save_fault e of
        Some OpenFault \<Rightarrow> (w, Some OpenError)
      | Some (WriteFault n) \<Rightarrow> (w\<lparr>dbFile := Some (take n data)\<rparr>, Some WriteError)
      | Some SyncFault \<Rightarrow> (w\<lparr>dbFile := Some data\<rparr>, Some SyncError)
      | None \<Rightarrow> (w\<lparr>dbFile := Some data\<rparr>, None))"

definition loadData :: "env \<Rightarrow> world \<Rightarrow> world \<times> io_error option" where
  "loadData e w =
     (if read_fails e then (w, Some ReadError)
      else case dbFile w of
        None \<Rightarrow> (set_budget 0 (set_balance 0 w), None)
      | Some data \<Rightarrow>
          if length data = 4 then
            saveData e (log_Print Migrated (set_budget 0 (set_balance (Uint32 data) w)))
          else if length data = 8 then
            (set_budget (Uint32 (take 4 (drop 4 data)))
               (set_balance (Uint32 (take 4 data)) w), None)
          else (w, Some (InvalidDataLength (length data))))"

subsection \<open>Audit logging\<close>

definition logTransaction :: "env \<Rightarrow> string \<Rightarrow> string \<Rightarrow> int32 \<Rightarrow> world \<Rightarrow> world" where
  "logTransaction e user action amount w =
     w\<lparr>server := (server w)\<lparr>transLogger :=
       Log (transLogger (server w)) (dateStr e, timeStr e, user, action, amount)\<rparr>\<rparr>"

definition logUnauthorized :: "env \<Rightarrow> string \<Rightarrow> string \<Rightarrow> world \<Rightarrow> world" where
  "logUnauthorized e user ip w =
     w\<lparr>server := (server w)\<lparr>unauthLogger :=
       Log (unauthLogger (server w)) (dateStr e, timeStr e, user, ip)\<rparr>\<rparr>"

subsection \<open>Access control\<close>

text \<open>Indexing a Go \<^verbatim>\<open>map[string]bool\<close>: a missing key reads as \<^verbatim>\<open>false\<close>.\<close>

definition map_index :: "(string \<rightharpoonup> bool) \<Rightarrow> string \<Rightarrow> bool" where
  "map_index m k = (case m k of None \<Rightarrow> False | Some b \<Rightarrow> b)"

type_synonym handler = "env \<Rightarrow> request \<Rightarrow> world \<Rightarrow> world \<times> response"

definition authMiddleware :: "handler \<Rightarrow> handler" where
  "authMiddleware next e r w =
     (if Method r = ''OPTIONS'' then (w, \<lparr>status = 200, payload = NoBody\<rparr>)
      else
        let user = Authorization r in
        if user = [] \<or> \<not> map_index (users (server w)) user then
          (logUnauthorized e user (RemoteAddr r) w, http_Error ''Unauthorized'' 401)
        else next e r w)"

subsection \<open>Handlers\<close>

definition handleGet :: handler where
  "handleGet e r w =
     (if Method r \<noteq> ''GET'' then (w, http_Error ''Method not allowed'' 405)
      else (w, \<lparr>status = 200,
                payload = Json (balance (server w)) (budget (server w))\<rparr>))"

definition handleSet :: handler where
  "handleSet e r w =
     (if Method r \<noteq> ''POST'' then (w, http_Error ''Method not allowed'' 405)
      else case Body r of
        None \<Rightarrow> (w, http_Error ''Invalid body'' 400)
      | Some amount \<Rightarrow>
          if maxBalance <s amount then (w, http_Error ''Amount exceeds limit'' 400)
          else
            (case saveData e (set_balance amount w) of
               (w', Some err) \<Rightarrow>
                 (log_Print (ErrorSaving err) w', http_Error ''Internal Server Error'' 500)
             | (w', None) \<Rightarrow>
                 (let w'' = logTransaction e (Authorization r) ''SET'' amount w'
                  in (w'', \<lparr>status = 200, payload = PlainInt (balance (server w''))\<rparr>))))"

definition handleSpend :: handler where
  "handleSpend e r w =
     (if Method r \<noteq> ''POST'' then (w, http_Error ''Method not allowed'' 405)
      else case Body r of
        None \<Rightarrow> (w, http_Error ''Invalid body'' 400)
      | Some amount \<Rightarrow>
          if 100000000 <s amount \<or> amount <s - 100000000 then
            (w, http_Error ''Transaction too large'' 400)
          else
            (case saveData e (set_balance (balance (server w) - amount) w) of
               (w', Some err) \<Rightarrow>
                 (log_Print (ErrorSaving err) w', http_Error ''Internal Server Error'' 500)
             | (w', None) \<Rightarrow>
                 (let w'' = logTransaction e (Authorization r) ''SPEND'' amount w'
                  in (w'', \<lparr>status = 200, payload = PlainInt (balance (server w''))\<rparr>))))"

definition handleSetBudget :: handler where
  "handleSetBudget e r w =
     (if Method r \<noteq> ''POST'' then (w, http_Error ''Method not allowed'' 405)
      else case Body r of
        None \<Rightarrow> (w, http_Error ''Invalid body'' 400)
      | Some b \<Rightarrow>
          if b <s 0 \<or> maxBalance <s b then (w, http_Error ''Invalid budget amount'' 400)
          else
            (let oldBudget = budget (server w);
                 diff = b - oldBudget;
                 w1 = set_balance (balance (server w) + diff) (set_budget b w)
             in case saveData e w1 of
               (w', Some err) \<Rightarrow>
                 (log_Print (ErrorSaving err) w', http_Error ''Internal Server Error'' 500)
             | (w', None) \<Rightarrow>
                 (let w'' = logTransaction e (Authorization r) ''BUDGET_CHANGE'' b w'
                  in (w'', \<lparr>status = 200,
                            payload = Json (balance (server w'')) (budget (server w''))\<rparr>))))"

subsection \<open>Startup and routing (main)\<close>

text \<open>
  The part of \<^verbatim>\<open>main\<close> between opening the loggers and registering the routes: a fresh
  \<^verbatim>\<open>Server\<close> (Go zero values for balance and budget) with the allowlist already read,
  then \<^verbatim>\<open>loadData\<close>, whose error is only logged as a warning.
\<close>

definition main_startup :: "env \<Rightarrow> (string \<rightharpoonup> bool) \<Rightarrow> byte list option \<Rightarrow> world" where
  "main_startup e us disk =
     (let srv = \<lparr>balance = 0, budget = 0, users = us, transLogger = [], unauthLogger = []\<rparr>;
          w = \<lparr>server = srv, dbFile = disk, stdlog = []\<rparr>
      in case loadData e w of
           (w', Some err) \<Rightarrow> log_Print (WarnLoadFailed err) w'
         | (w', None) \<Rightarrow> w')"

text \<open>The four routes registered with \<^verbatim>\<open>http.HandleFunc\<close>, each behind the middleware.\<close>

datatype route = RouteGet | RouteSet | RouteSpend | RouteSetBudget

definition route_handler :: "route \<Rightarrow> handler" where
  "route_handler rt =
     (case rt of
        RouteGet \<Rightarrow> handleGet
      | RouteSet \<Rightarrow> handleSet
      | RouteSpend \<Rightarrow> handleSpend
      | RouteSetBudget \<Rightarrow> handleSetBudget)"

definition serve :: "route \<Rightarrow> handler" where
  "serve rt = authMiddleware (route_handler rt)"

text \<open>
  A sequence of requests served one after the other (the mutex serialises them); the
  result lists the world and the response after each request.
\<close>

fun serve_all :: "world \<Rightarrow> (route \<times> env \<times> request) list \<Rightarrow> (world \<times> response) list" where
  "serve_all w [] = []"
| "serve_all w ((rt, e, r) # rest) =
     (let res = serve rt e r w in res # serve_all (fst res) rest)"

subsection \<open>Example inputs\<close>

text \<open>
  Concrete inputs at which the theorems below are evaluated: an allowlist with two users,
  an environment in which no system call fails, a POST request carrying one number, and
  a world whose state file holds the encoding of its in-memory pair.
\<close>

definition example_users :: "string \<rightharpoonup> bool" where
  "example_users = [''PAUL'' \<mapsto> True, ''MARIA'' \<mapsto> True]"

definition quiet_env :: env where
  "quiet_env = \<lparr>dateStr = ''2026-01-01'', timeStr = ''12:00:00'', read_fails = False,
     save_fault = None\<rparr>"

definition post :: "string \<Rightarrow> int32 \<Rightarrow> request" where
  "post user v = \<lparr>Method = ''POST'', Authorization = user, RemoteAddr = ''10.0.0.7:51234'',
     Body = Some v\<rparr>"

definition ledger :: "int32 \<Rightarrow> int32 \<Rightarrow> world" where
  "ledger bal bud =
     \<lparr>server = \<lparr>balance = bal, budget = bud, users = example_users, transLogger = [],
        unauthLogger = []\<rparr>,
      dbFile = Some (PutUint32 bal @ PutUint32 bud), stdlog = []\<rparr>"

definition fresh_start :: world where
  "fresh_start = main_startup quiet_env example_users None"

definition example_requests :: "(route \<times> env \<times> request) list" where
  "example_requests =
     [(RouteSet, quiet_env, post ''PAUL'' 1000),
      (RouteSpend, quiet_env, post ''MARIA'' 10),
      (RouteSetBudget, quiet_env, post ''PAUL'' 150)]"

definition spend_overflow_requests :: "(route \<times> env \<times> request) list" where
  "spend_overflow_requests =
     [(RouteSet, quiet_env, post ''PAUL'' 2000000000),
      (RouteSpend, quiet_env, post ''PAUL'' (- 100000000)),
      (RouteSpend, quiet_env, post ''PAUL'' (- 100000000))]"

definition budget_overflow_requests :: "(route \<times> env \<times> request) list" where
  "budget_overflow_requests =
     [(RouteSet, quiet_env, post ''PAUL'' 2000000000),
      (RouteSetBudget, quiet_env, post ''PAUL'' 2000000000)]"

definition budget_step_requests :: "(route \<times> env \<times> request) list" where
  "budget_step_requests =
     [(RouteSetBudget, quiet_env, post ''PAUL'' 100),
      (RouteSet, quiet_env, post ''PAUL'' 2000000000),
      (RouteSpend, quiet_env, post ''PAUL'' (- 100000000)),
      (RouteSpend, quiet_env, post ''PAUL'' (- 47483640)),
      (RouteSetBudget, quiet_env, post ''PAUL'' 150)]"

definition spend_underflow_requests :: "(route \<times> env \<times> request) list" where
  "spend_underflow_requests =
     [(RouteSet, quiet_env, post ''PAUL'' (- 2147483648)),
      (RouteSpend, quiet_env, post ''PAUL'' 1)]"

section \<open>Properties\<close>

lemmas eval_defs =
  fresh_start_def main_startup_def loadData_def serve_def route_handler_def
  authMiddleware_def map_index_def handleSet_def handleSpend_def handleSetBudget_def
  saveData_def logTransaction_def log_Print_def set_balance_def set_budget_def Log_def
  quiet_env_def post_def example_users_def maxBalance_def word_sless_alt Let_def

subsection \<open>Little-endian encoding\<close>

lemma Uint32_PutUint32: "Uint32 (PutUint32 v) = v"
proof (rule bit_word_eqI)
  fix n :: nat
  assume "n < LENGTH(32)"
  then have n: "n < 32" by simp
  consider "n < 8" | "8 \<le> n" "n < 16" | "16 \<le> n" "n < 24" | "24 \<le> n" "n < 32"
    using n by linarith
  then show "bit (Uint32 (PutUint32 v)) n = bit v n"
    by cases (auto simp: Uint32_def PutUint32_def bit_simps)
qed

lemma byte_high_bit: "8 \<le> m \<Longrightarrow> \<not> bit (x::byte) m"
  by (auto dest: bit_imp_le_length)

lemma PutUint32_Uint32:
  assumes "length b = 4"
  shows "PutUint32 (Uint32 b) = b"
proof -
  obtain b0 b1 b2 b3 where b: "b = [b0, b1, b2, b3]"
    using assms by (auto simp: length_Suc_conv numeral_eq_Suc)
  show ?thesis
    unfolding b PutUint32_def Uint32_def
    by (auto intro!: bit_word_eqI simp: bit_simps byte_high_bit)
qed

lemma length_PutUint32: "length (PutUint32 v) = 4"
  by (simp add: PutUint32_def)

lemma PutUint32_zero: "PutUint32 0 = [0, 0, 0, 0]"
  by (simp add: PutUint32_def)

subsection \<open>saveData and signed arithmetic\<close>

lemma saveData_ok:
  "save_fault e = None \<Longrightarrow>
   saveData e w =
     (w\<lparr>dbFile := Some (PutUint32 (balance (server w)) @ PutUint32 (budget (server w)))\<rparr>, None)"
  by (simp add: saveData_def)

lemma saveData_fails:
  assumes "save_fault e = Some f"
  shows "\<exists>d err. saveData e w = (w\<lparr>dbFile := d\<rparr>, Some err) \<and>
           (f = OpenFault \<longrightarrow> d = dbFile w)"
proof (cases f)
  case OpenFault
  have "saveData e w = (w\<lparr>dbFile := dbFile w\<rparr>, Some OpenError)"
    using assms OpenFault by (simp add: saveData_def)
  then show ?thesis by blast
next
  case (WriteFault n)
  have "saveData e w =
      (w\<lparr>dbFile := Some (take n (PutUint32 (balance (server w)) @
         PutUint32 (budget (server w))))\<rparr>, Some WriteError)"
    using assms WriteFault by (simp add: saveData_def)
  then show ?thesis using WriteFault by blast
next
  case SyncFault
  have "saveData e w =
      (w\<lparr>dbFile := Some (PutUint32 (balance (server w)) @
         PutUint32 (budget (server w)))\<rparr>, Some SyncError)"
    using assms SyncFault by (simp add: saveData_def)
  then show ?thesis using SyncFault by blast
qed

lemma sint_in_range:
  fixes k :: int
  assumes "- (2 ^ 31) \<le> k" and "k < 2 ^ 31"
  shows "signed_take_bit 31 k = k"
  using assms by (simp add: signed_take_bit_int_eq_self)

lemma sint_add_sub:
  fixes B b old :: int32
  assumes "- (2 ^ 31) \<le> sint B + (sint b - sint old)" and "sint B + (sint b - sint old) < 2 ^ 31"
  shows "sint (B + (b - old)) = sint B + (sint b - sint old)"
proof -
  have "sint (B + (b - old)) = signed_take_bit 31 (sint B + signed_take_bit 31 (sint b - sint old))"
    by (simp add: sint_word_ariths)
  also have "\<dots> = signed_take_bit 31 (sint B + (sint b - sint old))"
    using signed_take_bit_add [of 31 "sint B" "signed_take_bit 31 (sint b - sint old)"]
      signed_take_bit_add [of 31 "sint B" "sint b - sint old"]
    by (simp only: signed_take_bit_signed_take_bit min.idem)
  also have "\<dots> = sint B + (sint b - sint old)"
    using assms by (rule sint_in_range)
  finally show ?thesis .
qed

lemma sint_sub:
  fixes B a :: int32
  assumes "- (2 ^ 31) \<le> sint B - sint a" and "sint B - sint a < 2 ^ 31"
  shows "sint (B - a) = sint B - sint a"
  using assms by (simp add: sint_word_ariths signed_take_bit_int_eq_self)

lemma spend_cap_iff:
  "(100000000 <s amount \<or> amount <s - 100000000) \<longleftrightarrow>
   (sint (amount::int32) < - 100000000 \<or> 100000000 < sint amount)"
  by (auto simp: word_sless_alt)

subsection \<open>The handlers on their accepting and failing paths\<close>

lemma handleSet_accepted:
  assumes "Method r = ''POST''" and "Body r = Some v" and "\<not> maxBalance <s v"
    and "save_fault e = None"
  shows "handleSet e r w =
      (logTransaction e (Authorization r) ''SET'' v
         ((set_balance v w)\<lparr>dbFile := Some (PutUint32 v @ PutUint32 (budget (server w)))\<rparr>),
       \<lparr>status = 200, payload = PlainInt v\<rparr>)"
  using assms
  by (simp add: handleSet_def saveData_ok Let_def set_balance_def logTransaction_def)

lemma handleSpend_accepted:
  assumes "Method r = ''POST''" and "Body r = Some v"
    and "\<not> (100000000 <s v \<or> v <s - 100000000)" and "save_fault e = None"
  shows "handleSpend e r w =
      (logTransaction e (Authorization r) ''SPEND'' v
         ((set_balance (balance (server w) - v) w)
            \<lparr>dbFile := Some (PutUint32 (balance (server w) - v) @
               PutUint32 (budget (server w)))\<rparr>),
       \<lparr>status = 200, payload = PlainInt (balance (server w) - v)\<rparr>)"
  using assms
  by (simp add: handleSpend_def saveData_ok Let_def set_balance_def logTransaction_def)

lemma handleSetBudget_accepted:
  assumes "Method r = ''POST''" and "Body r = Some v"
    and "\<not> (v <s 0 \<or> maxBalance <s v)" and "save_fault e = None"
  shows "handleSetBudget e r w =
      (logTransaction e (Authorization r) ''BUDGET_CHANGE'' v
         ((set_balance (balance (server w) + (v - budget (server w))) (set_budget v w))
            \<lparr>dbFile := Some (PutUint32 (balance (server w) + (v - budget (server w))) @
               PutUint32 v)\<rparr>),
       \<lparr>status = 200, payload = Json (balance (server w) + (v - budget (server w))) v\<rparr>)"
  using assms
  by (simp add: handleSetBudget_def saveData_ok Let_def set_balance_def set_budget_def
      logTransaction_def)

lemma handleSet_save_failed:
  assumes "Method r = ''POST''" and "Body r = Some v" and "\<not> maxBalance <s v"
    and "save_fault e = Some f"
  shows "\<exists>d err. handleSet e r w =
      (log_Print (ErrorSaving err) ((set_balance v w)\<lparr>dbFile := d\<rparr>),
       http_Error ''Internal Server Error'' 500) \<and> (f = OpenFault \<longrightarrow> d = dbFile w)"
proof -
  obtain d err where
    "saveData e (set_balance v w) = ((set_balance v w)\<lparr>dbFile := d\<rparr>, Some err)"
    and "f = OpenFault \<longrightarrow> d = dbFile (set_balance v w)"
    using saveData_fails [OF assms(4)] by blast
  then show ?thesis using assms(1-3)
    by (auto simp: handleSet_def set_balance_def)
qed

lemma handleSpend_save_failed:
  assumes "Method r = ''POST''" and "Body r = Some v"
    and "\<not> (100000000 <s v \<or> v <s - 100000000)" and "save_fault e = Some f"
  shows "\<exists>d err. handleSpend e r w =
      (log_Print (ErrorSaving err) ((set_balance (balance (server w) - v) w)\<lparr>dbFile := d\<rparr>),
       http_Error ''Internal Server Error'' 500) \<and> (f = OpenFault \<longrightarrow> d = dbFile w)"
proof -
  let ?w1 = "set_balance (balance (server w) - v) w"
  obtain d err where
    "saveData e ?w1 = (?w1\<lparr>dbFile := d\<rparr>, Some err)"
    and "f = OpenFault \<longrightarrow> d = dbFile ?w1"
    using saveData_fails [OF assms(4)] by blast
  then show ?thesis using assms(1-3)
    by (auto simp: handleSpend_def set_balance_def)
qed

lemma handleSetBudget_save_failed:
  assumes "Method r = ''POST''" and "Body r = Some v"
    and "\<not> (v <s 0 \<or> maxBalance <s v)" and "save_fault e = Some f"
  shows "\<exists>d err. handleSetBudget e r w =
      (log_Print (ErrorSaving err)
         ((set_balance (balance (server w) + (v - budget (server w))) (set_budget v w))
            \<lparr>dbFile := d\<rparr>),
       http_Error ''Internal Server Error'' 500) \<and> (f = OpenFault \<longrightarrow> d = dbFile w)"
proof -
  let ?w1 = "set_balance (balance (server w) + (v - budget (server w))) (set_budget v w)"
  obtain d err where
    "saveData e ?w1 = (?w1\<lparr>dbFile := d\<rparr>, Some err)"
    and "f = OpenFault \<longrightarrow> d = dbFile ?w1"
    using saveData_fails [OF assms(4)] by blast
  then show ?thesis using assms(1-3)
    by (auto simp: handleSetBudget_def Let_def set_balance_def set_budget_def)
qed

subsection \<open>Set-budget\<close>

text \<open>
  What an accepted Set-budget request does, in the int32 arithmetic of the source: the
  balance becomes the 32-bit sum \<open>B + (b - oldB)\<close>, which wraps around, and the budget
  becomes \<open>b\<close>. The sum is the integer \<open>B + (b - oldB)\<close> only when that fits into 32
  bits; nothing in the handler checks that it does.
\<close>

lemma handleSetBudget_int32_effect:
  assumes "Method r = ''POST''" and "Body r = Some b"
    and "0 \<le>s b" and "b \<le>s maxBalance" and "save_fault e = None"
  shows "let B = balance (server w); oldB = budget (server w);
             w' = fst (handleSetBudget e r w); resp = snd (handleSetBudget e r w)
         in balance (server w') = B + (b - oldB) \<and> budget (server w') = b \<and>
            resp = \<lparr>status = 200, payload = Json (B + (b - oldB)) b\<rparr> \<and>
            (oldB = 100 \<and> b = 150 \<longrightarrow> balance (server w') = B + 50) \<and>
            (oldB = 100 \<and> b = 40 \<longrightarrow> balance (server w') = B - 60) \<and>
            (- (2 ^ 31) \<le> sint B + (sint b - sint oldB) \<and>
             sint B + (sint b - sint oldB) < 2 ^ 31 \<longrightarrow>
               sint (balance (server w')) = sint B + (sint b - sint oldB))"
proof -
  have v: "\<not> (b <s 0 \<or> maxBalance <s b)"
    using assms(3,4) by (simp add: word_sless_alt word_sle_eq)
  show ?thesis
    unfolding handleSetBudget_accepted [OF assms(1,2) v assms(5)]
    by (auto simp: Let_def logTransaction_def set_balance_def set_budget_def sint_add_sub)
qed

subsection \<open>Spend\<close>

text \<open>
  What a Spend request does, in the int32 arithmetic of the source. With an amount
  inside \<open>[-100000000, 100000000]\<close> (both ends included) the balance becomes the 32-bit
  difference \<open>B - amount\<close>, which wraps around; it is the integer difference only when
  that fits into 32 bits, and nothing in the handler checks that it does. Once the
  state is saved the answer is 200 with the new balance. With an amount outside the
  cap, or a body that does not decode, the answer is 400 and the world is unchanged.
\<close>

lemma handleSpend_int32_effect:
  assumes "Method r = ''POST''"
  shows "let B = balance (server w); w' = fst (handleSpend e r w);
             resp = snd (handleSpend e r w)
         in (Body r = Some amount \<and>
             - 100000000 \<le> sint amount \<and> sint amount \<le> 100000000 \<longrightarrow>
               balance (server w') = B - amount \<and>
               (- (2 ^ 31) \<le> sint B - sint amount \<and> sint B - sint amount < 2 ^ 31 \<longrightarrow>
                  sint (balance (server w')) = sint B - sint amount) \<and>
               (save_fault e = None \<longrightarrow>
                  resp = \<lparr>status = 200, payload = PlainInt (B - amount)\<rparr>)) \<and>
            (Body r = Some amount \<and>
             (sint amount < - 100000000 \<or> 100000000 < sint amount) \<longrightarrow>
               w' = w \<and> status resp = 400 \<and>
               payload resp = ErrorText ''Transaction too large'') \<and>
            (Body r = None \<longrightarrow>
               w' = w \<and> status resp = 400 \<and> payload resp = ErrorText ''Invalid body'')"
proof -
  have undecoded: "handleSpend e r w = (w, http_Error ''Invalid body'' 400)"
    if "Body r = None"
    using that assms by (simp add: handleSpend_def)
  have rejected: "handleSpend e r w = (w, http_Error ''Transaction too large'' 400)"
    if "Body r = Some amount" "sint amount < - 100000000 \<or> 100000000 < sint amount"
    using that assms by (simp add: handleSpend_def spend_cap_iff)
  have ok: "handleSpend e r w =
      (logTransaction e (Authorization r) ''SPEND'' amount
         ((set_balance (balance (server w) - amount) w)
            \<lparr>dbFile := Some (PutUint32 (balance (server w) - amount) @
               PutUint32 (budget (server w)))\<rparr>),
       \<lparr>status = 200, payload = PlainInt (balance (server w) - amount)\<rparr>)"
    if "Body r = Some amount" "- 100000000 \<le> sint amount" "sint amount \<le> 100000000"
      "save_fault e = None"
    using that handleSpend_accepted [OF assms that(1), of e w] by (simp add: spend_cap_iff)
  have mutated: "balance (server (fst (handleSpend e r w))) = balance (server w) - amount"
    if r: "Body r = Some amount" "- 100000000 \<le> sint amount" "sint amount \<le> 100000000"
  proof (cases "save_fault e")
    case None
    then show ?thesis using ok [OF r] by (simp add: logTransaction_def set_balance_def)
  next
    case (Some f)
    have "\<not> (100000000 <s amount \<or> amount <s - 100000000)"
      using r by (simp add: spend_cap_iff)
    from handleSpend_save_failed [OF assms r(1) this Some, of w] show ?thesis
      by (auto simp: log_Print_def set_balance_def)
  qed
  show ?thesis
    using undecoded rejected ok mutated by (auto simp: Let_def sint_sub http_Error_def)
qed

subsection \<open>Audit records of accepted mutations\<close>

text \<open>
  C10. An accepted mutation appends exactly one line to the transaction log, and the
  amount written is the number of the request: the new budget for \<open>BUDGET_CHANGE\<close> (not
  the difference applied to the balance), the absolute amount for \<open>SET\<close>, the amount
  spent for \<open>SPEND\<close>; the resulting balance is not what is written.
\<close>

theorem audit_amount_is_requested_value:
  assumes "Method r = ''POST''" and "Body r = Some v" and "save_fault e = None"
  shows "(\<not> maxBalance <s v \<longrightarrow>
            transLogger (server (fst (handleSet e r w))) =
              transLogger (server w) @ [(dateStr e, timeStr e, Authorization r, ''SET'', v)]) \<and>
         (\<not> (100000000 <s v \<or> v <s - 100000000) \<longrightarrow>
            transLogger (server (fst (handleSpend e r w))) =
              transLogger (server w) @ [(dateStr e, timeStr e, Authorization r, ''SPEND'', v)]) \<and>
         (\<not> (v <s 0 \<or> maxBalance <s v) \<longrightarrow>
            transLogger (server (fst (handleSetBudget e r w))) =
              transLogger (server w) @
                [(dateStr e, timeStr e, Authorization r, ''BUDGET_CHANGE'', v)])"
proof (intro conjI impI)
  assume "\<not> maxBalance <s v"
  from handleSet_accepted [OF assms(1,2) this assms(3), of w]
  show "transLogger (server (fst (handleSet e r w))) =
      transLogger (server w) @ [(dateStr e, timeStr e, Authorization r, ''SET'', v)]"
    by (simp add: logTransaction_def set_balance_def Log_def)
next
  assume "\<not> (100000000 <s v \<or> v <s - 100000000)"
  from handleSpend_accepted [OF assms(1,2) this assms(3), of w]
  show "transLogger (server (fst (handleSpend e r w))) =
      transLogger (server w) @ [(dateStr e, timeStr e, Authorization r, ''SPEND'', v)]"
    by (simp add: logTransaction_def set_balance_def Log_def)
next
  assume "\<not> (v <s 0 \<or> maxBalance <s v)"
  from handleSetBudget_accepted [OF assms(1,2) this assms(3), of w]
  show "transLogger (server (fst (handleSetBudget e r w))) =
      transLogger (server w) @ [(dateStr e, timeStr e, Authorization r, ''BUDGET_CHANGE'', v)]"
    by (simp add: logTransaction_def set_balance_def set_budget_def Log_def)
qed

theorem audit_amount_is_requested_value_witness:
  "transLogger (server (fst (handleSetBudget quiet_env (post ''MARIA'' 150) (ledger 500 100)))) =
     [(''2026-01-01'', ''12:00:00'', ''MARIA'', ''BUDGET_CHANGE'', 150)] \<and>
   balance (server (fst (handleSetBudget quiet_env (post ''MARIA'' 150) (ledger 500 100)))) = 550 \<and>
   transLogger (server (fst (handleSpend quiet_env (post ''MARIA'' 150) (ledger 500 100)))) =
     [(''2026-01-01'', ''12:00:00'', ''MARIA'', ''SPEND'', 150)] \<and>
   balance (server (fst (handleSpend quiet_env (post ''MARIA'' 150) (ledger 500 100)))) = 350 \<and>
   transLogger (server (fst (handleSet quiet_env (post ''MARIA'' 150) (ledger 500 100)))) =
     [(''2026-01-01'', ''12:00:00'', ''MARIA'', ''SET'', 150)]"
proof -
  have b: "balance (server (fst (handleSetBudget quiet_env (post ''MARIA'' 150) (ledger 500 100))))
      = 550"
    "balance (server (fst (handleSpend quiet_env (post ''MARIA'' 150) (ledger 500 100)))) = 350"
    by (simp_all add: handleSetBudget_def handleSpend_def saveData_def post_def quiet_env_def
        ledger_def maxBalance_def word_sless_alt Let_def logTransaction_def set_balance_def
        set_budget_def)
  show ?thesis
    using audit_amount_is_requested_value [of "post ''MARIA'' 150" 150 quiet_env "ledger 500 100"] b
    by (simp add: post_def quiet_env_def ledger_def maxBalance_def word_sless_alt)
qed

subsection \<open>Persistence failure\<close>

text \<open>
  C2, as the code has it. When \<^verbatim>\<open>saveData\<close> fails inside a mutating handler, the
  answer is 500 and no line is added to the transaction log (nor to the unauthorized
  log), but the in-memory pair keeps the mutation made before the save was attempted:
  the new balance for Set and Spend, the new budget and the adjusted balance for
  Set-budget. When it was the open that failed, the file is as it was before.
\<close>

theorem persist_failure_keeps_mutation:
  assumes "Method r = ''POST''" and "Body r = Some v" and "save_fault e = Some f"
  shows "(\<not> maxBalance <s v \<longrightarrow>
            (let w' = fst (handleSet e r w) in
              snd (handleSet e r w) = http_Error ''Internal Server Error'' 500 \<and>
              transLogger (server w') = transLogger (server w) \<and>
              unauthLogger (server w') = unauthLogger (server w) \<and>
              balance (server w') = v \<and> budget (server w') = budget (server w) \<and>
              (f = OpenFault \<longrightarrow> dbFile w' = dbFile w))) \<and>
         (\<not> (100000000 <s v \<or> v <s - 100000000) \<longrightarrow>
            (let w' = fst (handleSpend e r w) in
              snd (handleSpend e r w) = http_Error ''Internal Server Error'' 500 \<and>
              transLogger (server w') = transLogger (server w) \<and>
              unauthLogger (server w') = unauthLogger (server w) \<and>
              balance (server w') = balance (server w) - v \<and>
              budget (server w') = budget (server w) \<and>
              (f = OpenFault \<longrightarrow> dbFile w' = dbFile w))) \<and>
         (\<not> (v <s 0 \<or> maxBalance <s v) \<longrightarrow>
            (let w' = fst (handleSetBudget e r w) in
              snd (handleSetBudget e r w) = http_Error ''Internal Server Error'' 500 \<and>
              transLogger (server w') = transLogger (server w) \<and>
              unauthLogger (server w') = unauthLogger (server w) \<and>
              balance (server w') = balance (server w) + (v - budget (server w)) \<and>
              budget (server w') = v \<and>
              (f = OpenFault \<longrightarrow> dbFile w' = dbFile w)))"
proof (intro conjI impI)
  assume "\<not> maxBalance <s v"
  from handleSet_save_failed [OF assms(1,2) this assms(3), of w]
  show "let w' = fst (handleSet e r w) in
      snd (handleSet e r w) = http_Error ''Internal Server Error'' 500 \<and>
      transLogger (server w') = transLogger (server w) \<and>
      unauthLogger (server w') = unauthLogger (server w) \<and>
      balance (server w') = v \<and> budget (server w') = budget (server w) \<and>
      (f = OpenFault \<longrightarrow> dbFile w' = dbFile w)"
    by (auto simp: Let_def log_Print_def set_balance_def)
next
  assume "\<not> (100000000 <s v \<or> v <s - 100000000)"
  from handleSpend_save_failed [OF assms(1,2) this assms(3), of w]
  show "let w' = fst (handleSpend e r w) in
      snd (handleSpend e r w) = http_Error ''Internal Server Error'' 500 \<and>
      transLogger (server w') = transLogger (server w) \<and>
      unauthLogger (server w') = unauthLogger (server w) \<and>
      balance (server w') = balance (server w) - v \<and>
      budget (server w') = budget (server w) \<and>
      (f = OpenFault \<longrightarrow> dbFile w' = dbFile w)"
    by (auto simp: Let_def log_Print_def set_balance_def)
next
  assume "\<not> (v <s 0 \<or> maxBalance <s v)"
  from handleSetBudget_save_failed [OF assms(1,2) this assms(3), of w]
  show "let w' = fst (handleSetBudget e r w) in
      snd (handleSetBudget e r w) = http_Error ''Internal Server Error'' 500 \<and>
      transLogger (server w') = transLogger (server w) \<and>
      unauthLogger (server w') = unauthLogger (server w) \<and>
      balance (server w') = balance (server w) + (v - budget (server w)) \<and>
      budget (server w') = v \<and>
      (f = OpenFault \<longrightarrow> dbFile w' = dbFile w)"
    by (auto simp: Let_def log_Print_def set_balance_def set_budget_def)
qed

theorem persist_failure_keeps_mutation_witness:
  "Method (post ''PAUL'' 40) = ''POST'' \<and> Body (post ''PAUL'' 40) = Some 40 \<and>
   save_fault (quiet_env\<lparr>save_fault := Some SyncFault\<rparr>) = Some SyncFault \<and>
   status (snd (handleSetBudget (quiet_env\<lparr>save_fault := Some SyncFault\<rparr>) (post ''PAUL'' 40)
     (ledger 500 100))) = 500 \<and>
   transLogger (server (fst (handleSetBudget (quiet_env\<lparr>save_fault := Some SyncFault\<rparr>)
     (post ''PAUL'' 40) (ledger 500 100)))) = [] \<and>
   balance (server (fst (handleSetBudget (quiet_env\<lparr>save_fault := Some SyncFault\<rparr>)
     (post ''PAUL'' 40) (ledger 500 100)))) = 440 \<and>
   budget (server (fst (handleSetBudget (quiet_env\<lparr>save_fault := Some SyncFault\<rparr>)
     (post ''PAUL'' 40) (ledger 500 100)))) = 40 \<and>
   balance (server (fst (handleSpend (quiet_env\<lparr>save_fault := Some SyncFault\<rparr>)
     (post ''PAUL'' 40) (ledger 500 100)))) = 460 \<and>
   balance (server (fst (handleSet (quiet_env\<lparr>save_fault := Some SyncFault\<rparr>)
     (post ''PAUL'' 40) (ledger 500 100)))) = 40"
  using persist_failure_keeps_mutation [of "post ''PAUL'' 40" 40
      "quiet_env\<lparr>save_fault := Some SyncFault\<rparr>" SyncFault "ledger 500 100"]
  by (simp add: post_def quiet_env_def ledger_def maxBalance_def word_sless_alt Let_def
      http_Error_def)

text \<open>
  The claim as the spec words it fails: with the file holding the pair (0, 0) and the
  open failing, Set 5 answers 500 and writes no audit line, yet memory holds balance 5
  while the file still decodes to balance 0.
\<close>

theorem persist_failure_memory_disk_disagree:
  "status (snd (handleSet (quiet_env\<lparr>save_fault := Some OpenFault\<rparr>) (post ''PAUL'' 5)
     (ledger 0 0))) = 500 \<and>
   transLogger (server (fst (handleSet (quiet_env\<lparr>save_fault := Some OpenFault\<rparr>)
     (post ''PAUL'' 5) (ledger 0 0)))) = [] \<and>
   balance (server (ledger 0 0)) = 0 \<and>
   balance (server (fst (handleSet (quiet_env\<lparr>save_fault := Some OpenFault\<rparr>)
     (post ''PAUL'' 5) (ledger 0 0)))) = 5 \<and>
   dbFile (fst (handleSet (quiet_env\<lparr>save_fault := Some OpenFault\<rparr>)
     (post ''PAUL'' 5) (ledger 0 0))) = Some [0, 0, 0, 0, 0, 0, 0, 0] \<and>
   balance (server (fst (loadData quiet_env
     (fst (handleSet (quiet_env\<lparr>save_fault := Some OpenFault\<rparr>)
        (post ''PAUL'' 5) (ledger 0 0)))))) = 0"
  by (simp add: handleSet_def saveData_def loadData_def post_def quiet_env_def ledger_def
      maxBalance_def word_sless_alt log_Print_def set_balance_def set_budget_def
      http_Error_def PutUint32_def Uint32_def)

subsection \<open>Access control\<close>

text \<open>
  C7. A request whose method is not OPTIONS and whose credential is empty or is not an
  allowlisted key (absent from the map, so also when no header was sent) is answered
  401; exactly one line is appended to the unauthorized log, holding the token as
  supplied and the remote address; the wrapped handler is not run, whatever it is; and
  balance, budget, state file, transaction log and process log are as before. This
  holds for the middleware around any handler and so for each of the four routes.
\<close>

theorem unauthorized_rejected:
  assumes "Method r \<noteq> ''OPTIONS''"
    and "Authorization r = [] \<or> users (server w) (Authorization r) \<noteq> Some True"
  shows "authMiddleware next e r w =
           (w\<lparr>server := (server w)\<lparr>unauthLogger := unauthLogger (server w) @
                [(dateStr e, timeStr e, Authorization r, RemoteAddr r)]\<rparr>\<rparr>,
            \<lparr>status = 401, payload = ErrorText ''Unauthorized''\<rparr>) \<and>
         serve rt e r w = authMiddleware next e r w"
proof -
  have denied: "Authorization r = [] \<or> \<not> map_index (users (server w)) (Authorization r)"
    using assms(2) by (auto simp: map_index_def split: option.splits)
  have "authMiddleware h e r w =
      (w\<lparr>server := (server w)\<lparr>unauthLogger := unauthLogger (server w) @
           [(dateStr e, timeStr e, Authorization r, RemoteAddr r)]\<rparr>\<rparr>,
       \<lparr>status = 401, payload = ErrorText ''Unauthorized''\<rparr>)" for h
    using assms(1) denied
    by (auto simp: authMiddleware_def Let_def logUnauthorized_def Log_def http_Error_def)
  then show ?thesis by (simp add: serve_def)
qed

theorem unauthorized_rejected_witness:
  "Method (post [] 5) \<noteq> ''OPTIONS'' \<and>
   serve RouteSet quiet_env (post [] 5) (ledger 500 100) =
     ((ledger 500 100)\<lparr>server := (server (ledger 500 100))\<lparr>unauthLogger :=
         [(''2026-01-01'', ''12:00:00'', [], ''10.0.0.7:51234'')]\<rparr>\<rparr>,
      \<lparr>status = 401, payload = ErrorText ''Unauthorized''\<rparr>) \<and>
   users (server (ledger 500 100)) ''EVE'' = None \<and>
   serve RouteSpend quiet_env (post ''EVE'' 5) (ledger 500 100) =
     ((ledger 500 100)\<lparr>server := (server (ledger 500 100))\<lparr>unauthLogger :=
         [(''2026-01-01'', ''12:00:00'', ''EVE'', ''10.0.0.7:51234'')]\<rparr>\<rparr>,
      \<lparr>status = 401, payload = ErrorText ''Unauthorized''\<rparr>)"
  using unauthorized_rejected [of "post [] 5" "ledger 500 100" handleSet quiet_env RouteSet]
    unauthorized_rejected [of "post ''EVE'' 5" "ledger 500 100" handleSpend quiet_env RouteSpend]
  by (simp add: post_def quiet_env_def ledger_def example_users_def)

text \<open>
  C9. On every route an OPTIONS request is answered 200 with no body, whatever its
  credential (none, unknown or valid), and the world is unchanged: in particular no
  line is added to the unauthorized log.
\<close>

theorem options_bypasses_auth:
  assumes "Method r = ''OPTIONS''"
  shows "serve rt e r w = (w, \<lparr>status = 200, payload = NoBody\<rparr>)"
  using assms by (simp add: serve_def authMiddleware_def)

theorem options_bypasses_auth_witness:
  "Method ((post [] 5)\<lparr>Method := ''OPTIONS''\<rparr>) = ''OPTIONS'' \<and>
   serve RouteSetBudget quiet_env ((post [] 5)\<lparr>Method := ''OPTIONS''\<rparr>) (ledger 500 100) =
     (ledger 500 100, \<lparr>status = 200, payload = NoBody\<rparr>) \<and>
   unauthLogger (server (fst (serve RouteSetBudget quiet_env
     ((post [] 5)\<lparr>Method := ''OPTIONS''\<rparr>) (ledger 500 100)))) = []"
  using options_bypasses_auth [of "(post [] 5)\<lparr>Method := ''OPTIONS''\<rparr>" RouteSetBudget
      quiet_env "ledger 500 100"]
  by (simp add: post_def ledger_def)

subsection \<open>Loading the state file\<close>

lemma loadData_eight:
  assumes "\<not> read_fails e" and "dbFile w = Some (PutUint32 a @ PutUint32 b)"
  shows "loadData e w = (set_budget b (set_balance a w), None)"
  using assms by (simp add: loadData_def length_PutUint32 Uint32_PutUint32)

text \<open>
  C5. Loading a state file of exactly 4 bytes with little-endian value \<open>V\<close> sets the
  in-memory pair to balance \<open>V\<close>, budget 0 and at once calls \<^verbatim>\<open>saveData\<close>. When that
  save succeeds, load returns no error and the file is 8 bytes: the 4 legacy bytes
  unchanged, followed by 4 zero bytes; loading it again gives balance \<open>V\<close>, budget 0.
\<close>

theorem legacy_file_migrated:
  assumes "dbFile w = Some data" and "length data = 4" and "\<not> read_fails e"
  shows "let w' = fst (loadData e w) in
           balance (server w') = Uint32 data \<and> budget (server w') = 0 \<and>
           (save_fault e = None \<longrightarrow>
              snd (loadData e w) = None \<and>
              dbFile w' = Some (data @ [0, 0, 0, 0]) \<and> length (data @ [0, 0, 0, 0]) = 8 \<and>
              Uint32 (take 4 (data @ [0, 0, 0, 0])) = Uint32 data \<and>
              loadData e w' = (w', None))"
proof -
  let ?w1 = "log_Print Migrated (set_budget 0 (set_balance (Uint32 data) w))"
  have load: "loadData e w = saveData e ?w1"
    using assms by (simp add: loadData_def)
  have mem: "balance (server ?w1) = Uint32 data" "budget (server ?w1) = 0"
    by (simp_all add: log_Print_def set_budget_def set_balance_def)
  have always: "balance (server (fst (loadData e w))) = Uint32 data \<and>
      budget (server (fst (loadData e w))) = 0"
  proof (cases "save_fault e")
    case None
    then show ?thesis using mem by (simp add: load saveData_ok)
  next
    case (Some f)
    from saveData_fails [OF this, of ?w1] show ?thesis
      using mem by (auto simp: load)
  qed
  have saved: "loadData e w = (?w1\<lparr>dbFile := Some (data @ [0, 0, 0, 0])\<rparr>, None)"
    if "save_fault e = None"
    using that mem assms(2) by (simp add: load saveData_ok PutUint32_Uint32 PutUint32_zero)
  have again: "loadData e (?w1\<lparr>dbFile := Some (data @ [0, 0, 0, 0])\<rparr>) =
      (?w1\<lparr>dbFile := Some (data @ [0, 0, 0, 0])\<rparr>, None)"
    using assms(2,3)
    by (simp add: loadData_def Uint32_PutUint32 [of 0, unfolded PutUint32_zero]
        log_Print_def set_budget_def set_balance_def)
  show ?thesis
    using always saved again assms(2) by (simp add: Let_def)
qed

theorem legacy_file_migrated_witness:
  "dbFile ((ledger 0 0)\<lparr>dbFile := Some [57, 48, 0, 0]\<rparr>) = Some [57, 48, 0, 0] \<and>
   length [57, 48, 0, 0 :: byte] = 4 \<and> \<not> read_fails quiet_env \<and>
   Uint32 [57, 48, 0, 0] = 12345 \<and>
   balance (server (fst (loadData quiet_env ((ledger 0 0)\<lparr>dbFile := Some [57, 48, 0, 0]\<rparr>))))
     = 12345 \<and>
   dbFile (fst (loadData quiet_env ((ledger 0 0)\<lparr>dbFile := Some [57, 48, 0, 0]\<rparr>)))
     = Some [57, 48, 0, 0, 0, 0, 0, 0]"
proof -
  have v: "Uint32 [57, 48, 0, 0] = 12345"
    by (simp add: Uint32_def)
  show ?thesis
    using legacy_file_migrated [of "(ledger 0 0)\<lparr>dbFile := Some [57, 48, 0, 0]\<rparr>"
        "[57, 48, 0, 0]" quiet_env] v
    by (simp add: quiet_env_def Let_def)
qed

text \<open>
  C8, as the code has it. When the state file exists with a length other than 4 or 8
  bytes, load fails with an invalid-length error and leaves memory and file untouched;
  at startup memory is then balance 0, budget 0, and \<^verbatim>\<open>main\<close> only logs a warning and
  goes on to serve every route from zeros. A read is answered 200 with the pair (0, 0);
  each kind of mutation (Set, Spend, Set-budget) from an allowlisted user is validated,
  applied and answered 200 as usual, and replaces the unknown-shaped file by the 8-byte
  encoding of the new pair.
\<close>

theorem corrupt_state_starts_at_zero:
  assumes "length data \<noteq> 4" and "length data \<noteq> 8" and "\<not> read_fails e"
  shows "(dbFile w = Some data \<longrightarrow>
            loadData e w = (w, Some (InvalidDataLength (length data)))) \<and>
         main_startup e us (Some data) =
           \<lparr>server = \<lparr>balance = 0, budget = 0, users = us, transLogger = [],
              unauthLogger = []\<rparr>,
            dbFile = Some data,
            stdlog = [WarnLoadFailed (InvalidDataLength (length data))]\<rparr> \<and>
         (Method r = ''POST'' \<and> Body r = Some v \<and> \<not> maxBalance <s v \<and>
          Authorization r \<noteq> [] \<and> us (Authorization r) = Some True \<and>
          save_fault e' = None \<longrightarrow>
            serve RouteSet e' r (main_startup e us (Some data)) =
              (\<lparr>server = \<lparr>balance = v, budget = 0, users = us,
                  transLogger = [(dateStr e', timeStr e', Authorization r, ''SET'', v)],
                  unauthLogger = []\<rparr>,
                dbFile = Some (PutUint32 v @ PutUint32 0),
                stdlog = [WarnLoadFailed (InvalidDataLength (length data))]\<rparr>,
               \<lparr>status = 200, payload = PlainInt v\<rparr>)) \<and>
         (Method r = ''POST'' \<and> Body r = Some v \<and>
          \<not> (100000000 <s v \<or> v <s - 100000000) \<and>
          Authorization r \<noteq> [] \<and> us (Authorization r) = Some True \<and>
          save_fault e' = None \<longrightarrow>
            serve RouteSpend e' r (main_startup e us (Some data)) =
              (\<lparr>server = \<lparr>balance = - v, budget = 0, users = us,
                  transLogger = [(dateStr e', timeStr e', Authorization r, ''SPEND'', v)],
                  unauthLogger = []\<rparr>,
                dbFile = Some (PutUint32 (- v) @ PutUint32 0),
                stdlog = [WarnLoadFailed (InvalidDataLength (length data))]\<rparr>,
               \<lparr>status = 200, payload = PlainInt (- v)\<rparr>)) \<and>
         (Method r = ''POST'' \<and> Body r = Some v \<and> \<not> (v <s 0 \<or> maxBalance <s v) \<and>
          Authorization r \<noteq> [] \<and> us (Authorization r) = Some True \<and>
          save_fault e' = None \<longrightarrow>
            serve RouteSetBudget e' r (main_startup e us (Some data)) =
              (\<lparr>server = \<lparr>balance = v, budget = v, users = us,
                  transLogger =
                    [(dateStr e', timeStr e', Authorization r, ''BUDGET_CHANGE'', v)],
                  unauthLogger = []\<rparr>,
                dbFile = Some (PutUint32 v @ PutUint32 v),
                stdlog = [WarnLoadFailed (InvalidDataLength (length data))]\<rparr>,
               \<lparr>status = 200, payload = Json v v\<rparr>)) \<and>
         (Method r = ''GET'' \<and> Authorization r \<noteq> [] \<and> us (Authorization r) = Some True \<longrightarrow>
            serve RouteGet e' r (main_startup e us (Some data)) =
              (main_startup e us (Some data), \<lparr>status = 200, payload = Json 0 0\<rparr>))"
proof -
  have load: "loadData e w = (w, Some (InvalidDataLength (length data)))"
    if "dbFile w = Some data" for w
    using that assms by (simp add: loadData_def)
  have start: "main_startup e us (Some data) =
      \<lparr>server = \<lparr>balance = 0, budget = 0, users = us, transLogger = [], unauthLogger = []\<rparr>,
       dbFile = Some data, stdlog = [WarnLoadFailed (InvalidDataLength (length data))]\<rparr>"
    by (simp add: main_startup_def Let_def load log_Print_def)
  have passed: "serve rt e' r (main_startup e us (Some data)) =
      route_handler rt e' r (main_startup e us (Some data))"
    if "Method r = ''POST'' \<or> Method r = ''GET''" "Authorization r \<noteq> []"
      "us (Authorization r) = Some True" for rt
    using that by (auto simp: serve_def authMiddleware_def map_index_def start)
  have set: "serve RouteSet e' r (main_startup e us (Some data)) =
      (\<lparr>server = \<lparr>balance = v, budget = 0, users = us,
          transLogger = [(dateStr e', timeStr e', Authorization r, ''SET'', v)],
          unauthLogger = []\<rparr>,
        dbFile = Some (PutUint32 v @ PutUint32 0),
        stdlog = [WarnLoadFailed (InvalidDataLength (length data))]\<rparr>,
       \<lparr>status = 200, payload = PlainInt v\<rparr>)"
    if "Method r = ''POST''" "Body r = Some v" "\<not> maxBalance <s v"
      "Authorization r \<noteq> []" "us (Authorization r) = Some True" "save_fault e' = None"
    using that
    by (simp add: passed route_handler_def handleSet_accepted)
      (simp add: start logTransaction_def set_balance_def Log_def)
  have spend: "serve RouteSpend e' r (main_startup e us (Some data)) =
      (\<lparr>server = \<lparr>balance = - v, budget = 0, users = us,
          transLogger = [(dateStr e', timeStr e', Authorization r, ''SPEND'', v)],
          unauthLogger = []\<rparr>,
        dbFile = Some (PutUint32 (- v) @ PutUint32 0),
        stdlog = [WarnLoadFailed (InvalidDataLength (length data))]\<rparr>,
       \<lparr>status = 200, payload = PlainInt (- v)\<rparr>)"
    if "Method r = ''POST''" "Body r = Some v" "\<not> (100000000 <s v \<or> v <s - 100000000)"
      "Authorization r \<noteq> []" "us (Authorization r) = Some True" "save_fault e' = None"
    using that
    by (simp add: passed route_handler_def handleSpend_accepted)
      (simp add: start logTransaction_def set_balance_def Log_def)
  have setBudget: "serve RouteSetBudget e' r (main_startup e us (Some data)) =
      (\<lparr>server = \<lparr>balance = v, budget = v, users = us,
          transLogger = [(dateStr e', timeStr e', Authorization r, ''BUDGET_CHANGE'', v)],
          unauthLogger = []\<rparr>,
        dbFile = Some (PutUint32 v @ PutUint32 v),
        stdlog = [WarnLoadFailed (InvalidDataLength (length data))]\<rparr>,
       \<lparr>status = 200, payload = Json v v\<rparr>)"
    if "Method r = ''POST''" "Body r = Some v" "\<not> (v <s 0 \<or> maxBalance <s v)"
      "Authorization r \<noteq> []" "us (Authorization r) = Some True" "save_fault e' = None"
    using that
    by (simp add: passed route_handler_def handleSetBudget_accepted)
      (simp add: start logTransaction_def set_balance_def set_budget_def Log_def)
  have get: "serve RouteGet e' r (main_startup e us (Some data)) =
      (main_startup e us (Some data), \<lparr>status = 200, payload = Json 0 0\<rparr>)"
    if "Method r = ''GET''" "Authorization r \<noteq> []" "us (Authorization r) = Some True"
    using that
    by (simp add: passed route_handler_def handleGet_def) (simp add: start)
  show ?thesis
    using load [of w] start set spend setBudget get by blast
qed

theorem corrupt_state_starts_at_zero_witness:
  "length [1, 2, 3 :: byte] \<noteq> 4 \<and> length [1, 2, 3 :: byte] \<noteq> 8 \<and> \<not> read_fails quiet_env \<and>
   main_startup quiet_env example_users (Some [1, 2, 3]) =
     \<lparr>server = \<lparr>balance = 0, budget = 0, users = example_users, transLogger = [],
        unauthLogger = []\<rparr>,
      dbFile = Some [1, 2, 3], stdlog = [WarnLoadFailed (InvalidDataLength 3)]\<rparr> \<and>
   snd (serve RouteSet quiet_env (post ''PAUL'' 5)
     (main_startup quiet_env example_users (Some [1, 2, 3]))) =
       \<lparr>status = 200, payload = PlainInt 5\<rparr> \<and>
   dbFile (fst (serve RouteSet quiet_env (post ''PAUL'' 5)
     (main_startup quiet_env example_users (Some [1, 2, 3])))) =
       Some [5, 0, 0, 0, 0, 0, 0, 0] \<and>
   snd (serve RouteSpend quiet_env (post ''PAUL'' 5)
     (main_startup quiet_env example_users (Some [1, 2, 3]))) =
       \<lparr>status = 200, payload = PlainInt (- 5)\<rparr> \<and>
   dbFile (fst (serve RouteSpend quiet_env (post ''PAUL'' 5)
     (main_startup quiet_env example_users (Some [1, 2, 3])))) =
       Some [251, 255, 255, 255, 0, 0, 0, 0] \<and>
   snd (serve RouteSetBudget quiet_env (post ''PAUL'' 5)
     (main_startup quiet_env example_users (Some [1, 2, 3]))) =
       \<lparr>status = 200, payload = Json 5 5\<rparr> \<and>
   dbFile (fst (serve RouteSetBudget quiet_env (post ''PAUL'' 5)
     (main_startup quiet_env example_users (Some [1, 2, 3])))) =
       Some [5, 0, 0, 0, 5, 0, 0, 0] \<and>
   snd (serve RouteGet quiet_env ((post ''PAUL'' 5)\<lparr>Method := ''GET''\<rparr>)
     (main_startup quiet_env example_users (Some [1, 2, 3]))) =
       \<lparr>status = 200, payload = Json 0 0\<rparr>"
proof -
  have h: "length [1, 2, 3 :: byte] \<noteq> 4" "length [1, 2, 3 :: byte] \<noteq> 8"
    "\<not> read_fails quiet_env"
    by (simp_all add: quiet_env_def)
  note t = corrupt_state_starts_at_zero [OF h, of "(ledger 0 0)\<lparr>dbFile := Some [1, 2, 3]\<rparr>"
      example_users "post ''PAUL'' 5" 5 quiet_env]
  note g = corrupt_state_starts_at_zero [OF h, of "(ledger 0 0)\<lparr>dbFile := Some [1, 2, 3]\<rparr>"
      example_users "(post ''PAUL'' 5)\<lparr>Method := ''GET''\<rparr>" 5 quiet_env]
  have started: "main_startup quiet_env example_users (Some [1, 2, 3]) =
      \<lparr>server = \<lparr>balance = 0, budget = 0, users = example_users, transLogger = [],
         unauthLogger = []\<rparr>,
       dbFile = Some [1, 2, 3], stdlog = [WarnLoadFailed (InvalidDataLength 3)]\<rparr>"
    using t [THEN conjunct2, THEN conjunct1] by simp
  have req: "Method (post ''PAUL'' 5) = ''POST''" "Body (post ''PAUL'' 5) = Some 5"
    "Authorization (post ''PAUL'' 5) \<noteq> []"
    "example_users (Authorization (post ''PAUL'' 5)) = Some True"
    "save_fault quiet_env = None"
    by (simp_all add: post_def example_users_def quiet_env_def)
  have valid: "\<not> maxBalance <s 5" "\<not> (100000000 <s (5::int32) \<or> (5::int32) <s - 100000000)"
    "\<not> ((5::int32) <s 0 \<or> maxBalance <s 5)"
    by (simp_all add: maxBalance_def word_sless_alt)
  have "Method (post ''PAUL'' 5) = ''POST'' \<and> Body (post ''PAUL'' 5) = Some 5 \<and>
      \<not> maxBalance <s 5 \<and> Authorization (post ''PAUL'' 5) \<noteq> [] \<and>
      example_users (Authorization (post ''PAUL'' 5)) = Some True \<and>
      save_fault quiet_env = None"
    using req valid by blast
  from t [THEN conjunct2, THEN conjunct2, THEN conjunct1, THEN mp, OF this]
  have set: "snd (serve RouteSet quiet_env (post ''PAUL'' 5)
      (main_startup quiet_env example_users (Some [1, 2, 3]))) =
        \<lparr>status = 200, payload = PlainInt 5\<rparr>"
    "dbFile (fst (serve RouteSet quiet_env (post ''PAUL'' 5)
      (main_startup quiet_env example_users (Some [1, 2, 3])))) =
        Some [5, 0, 0, 0, 0, 0, 0, 0]"
    by (simp_all add: PutUint32_def)
  have "Method (post ''PAUL'' 5) = ''POST'' \<and> Body (post ''PAUL'' 5) = Some 5 \<and>
      \<not> (100000000 <s (5::int32) \<or> (5::int32) <s - 100000000) \<and>
      Authorization (post ''PAUL'' 5) \<noteq> [] \<and>
      example_users (Authorization (post ''PAUL'' 5)) = Some True \<and>
      save_fault quiet_env = None"
    using req valid by blast
  from t [THEN conjunct2, THEN conjunct2, THEN conjunct2, THEN conjunct1, THEN mp, OF this]
  have spend: "snd (serve RouteSpend quiet_env (post ''PAUL'' 5)
      (main_startup quiet_env example_users (Some [1, 2, 3]))) =
        \<lparr>status = 200, payload = PlainInt (- 5)\<rparr>"
    "dbFile (fst (serve RouteSpend quiet_env (post ''PAUL'' 5)
      (main_startup quiet_env example_users (Some [1, 2, 3])))) =
        Some [251, 255, 255, 255, 0, 0, 0, 0]"
    by (simp_all add: PutUint32_def)
  have "Method (post ''PAUL'' 5) = ''POST'' \<and> Body (post ''PAUL'' 5) = Some 5 \<and>
      \<not> ((5::int32) <s 0 \<or> maxBalance <s 5) \<and>
      Authorization (post ''PAUL'' 5) \<noteq> [] \<and>
      example_users (Authorization (post ''PAUL'' 5)) = Some True \<and>
      save_fault quiet_env = None"
    using req valid by blast
  from t [THEN conjunct2, THEN conjunct2, THEN conjunct2, THEN conjunct2, THEN conjunct1,
      THEN mp, OF this]
  have setBudget: "snd (serve RouteSetBudget quiet_env (post ''PAUL'' 5)
      (main_startup quiet_env example_users (Some [1, 2, 3]))) =
        \<lparr>status = 200, payload = Json 5 5\<rparr>"
    "dbFile (fst (serve RouteSetBudget quiet_env (post ''PAUL'' 5)
      (main_startup quiet_env example_users (Some [1, 2, 3])))) =
        Some [5, 0, 0, 0, 5, 0, 0, 0]"
    by (simp_all add: PutUint32_def)
  have "Method ((post ''PAUL'' 5)\<lparr>Method := ''GET''\<rparr>) = ''GET'' \<and>
      Authorization ((post ''PAUL'' 5)\<lparr>Method := ''GET''\<rparr>) \<noteq> [] \<and>
      example_users (Authorization ((post ''PAUL'' 5)\<lparr>Method := ''GET''\<rparr>)) = Some True"
    by (simp add: post_def example_users_def)
  from g [THEN conjunct2, THEN conjunct2, THEN conjunct2, THEN conjunct2, THEN conjunct2,
      THEN mp, OF this]
  have get: "snd (serve RouteGet quiet_env ((post ''PAUL'' 5)\<lparr>Method := ''GET''\<rparr>)
      (main_startup quiet_env example_users (Some [1, 2, 3]))) =
        \<lparr>status = 200, payload = Json 0 0\<rparr>"
    by simp
  show ?thesis
    by (intro conjI) (rule h started set spend setBudget get)+
qed

text \<open>
  The claim as the spec words it fails: started on a 3-byte file, the service warns,
  starts from zeros and then accepts a Set, a Spend or a Set-budget of 5 from an
  allowlisted user, each of which overwrites the file.
\<close>

theorem corrupt_state_still_serves_mutations:
  "stdlog (main_startup quiet_env example_users (Some [1, 2, 3])) =
     [WarnLoadFailed (InvalidDataLength 3)] \<and>
   dbFile (main_startup quiet_env example_users (Some [1, 2, 3])) = Some [1, 2, 3] \<and>
   status (snd (serve RouteSet quiet_env (post ''PAUL'' 5)
     (main_startup quiet_env example_users (Some [1, 2, 3])))) = 200 \<and>
   balance (server (fst (serve RouteSet quiet_env (post ''PAUL'' 5)
     (main_startup quiet_env example_users (Some [1, 2, 3]))))) = 5 \<and>
   dbFile (fst (serve RouteSet quiet_env (post ''PAUL'' 5)
     (main_startup quiet_env example_users (Some [1, 2, 3])))) =
       Some [5, 0, 0, 0, 0, 0, 0, 0] \<and>
   status (snd (serve RouteSpend quiet_env (post ''PAUL'' 5)
     (main_startup quiet_env example_users (Some [1, 2, 3])))) = 200 \<and>
   sint (balance (server (fst (serve RouteSpend quiet_env (post ''PAUL'' 5)
     (main_startup quiet_env example_users (Some [1, 2, 3])))))) = - 5 \<and>
   dbFile (fst (serve RouteSpend quiet_env (post ''PAUL'' 5)
     (main_startup quiet_env example_users (Some [1, 2, 3])))) =
       Some [251, 255, 255, 255, 0, 0, 0, 0] \<and>
   status (snd (serve RouteSetBudget quiet_env (post ''PAUL'' 5)
     (main_startup quiet_env example_users (Some [1, 2, 3])))) = 200 \<and>
   balance (server (fst (serve RouteSetBudget quiet_env (post ''PAUL'' 5)
     (main_startup quiet_env example_users (Some [1, 2, 3]))))) = 5 \<and>
   dbFile (fst (serve RouteSetBudget quiet_env (post ''PAUL'' 5)
     (main_startup quiet_env example_users (Some [1, 2, 3])))) =
       Some [5, 0, 0, 0, 5, 0, 0, 0]"
  by (simp add: main_startup_def loadData_def serve_def route_handler_def authMiddleware_def
      map_index_def handleSet_def handleSpend_def handleSetBudget_def saveData_def
      logTransaction_def log_Print_def set_balance_def set_budget_def Log_def quiet_env_def
      post_def example_users_def maxBalance_def word_sless_alt PutUint32_def Let_def)

subsection \<open>The persisted state after accepted mutations\<close>

lemma handleSet_200:
  assumes "Method r = ''POST''" and "status (snd (handleSet e r w)) = 200"
  shows "dbFile (fst (handleSet e r w)) =
      Some (PutUint32 (balance (server (fst (handleSet e r w)))) @
            PutUint32 (budget (server (fst (handleSet e r w)))))"
proof (cases "Body r")
  case None
  then show ?thesis using assms by (simp add: handleSet_def http_Error_def)
next
  case (Some v)
  show ?thesis
  proof (cases "maxBalance <s v")
    case True
    then show ?thesis using assms Some by (simp add: handleSet_def http_Error_def)
  next
    case valid: False
    show ?thesis
    proof (cases "save_fault e")
      case None
      show ?thesis
        unfolding handleSet_accepted [OF assms(1) Some valid None]
        by (simp add: logTransaction_def set_balance_def)
    next
      case (Some f)
      from handleSet_save_failed [OF assms(1) \<open>Body r = Some v\<close> valid Some, of w]
      show ?thesis using assms(2) by (auto simp: http_Error_def)
    qed
  qed
qed

lemma handleSpend_200:
  assumes "Method r = ''POST''" and "status (snd (handleSpend e r w)) = 200"
  shows "dbFile (fst (handleSpend e r w)) =
      Some (PutUint32 (balance (server (fst (handleSpend e r w)))) @
            PutUint32 (budget (server (fst (handleSpend e r w)))))"
proof (cases "Body r")
  case None
  then show ?thesis using assms by (simp add: handleSpend_def http_Error_def)
next
  case (Some v)
  show ?thesis
  proof (cases "100000000 <s v \<or> v <s - 100000000")
    case True
    then show ?thesis using assms Some by (simp add: handleSpend_def http_Error_def)
  next
    case valid: False
    show ?thesis
    proof (cases "save_fault e")
      case None
      show ?thesis
        unfolding handleSpend_accepted [OF assms(1) Some valid None]
        by (simp add: logTransaction_def set_balance_def)
    next
      case (Some f)
      from handleSpend_save_failed [OF assms(1) \<open>Body r = Some v\<close> valid Some, of w]
      show ?thesis using assms(2) by (auto simp: http_Error_def)
    qed
  qed
qed

lemma handleSetBudget_200:
  assumes "Method r = ''POST''" and "status (snd (handleSetBudget e r w)) = 200"
  shows "dbFile (fst (handleSetBudget e r w)) =
      Some (PutUint32 (balance (server (fst (handleSetBudget e r w)))) @
            PutUint32 (budget (server (fst (handleSetBudget e r w)))))"
proof (cases "Body r")
  case None
  then show ?thesis using assms by (simp add: handleSetBudget_def http_Error_def)
next
  case (Some v)
  show ?thesis
  proof (cases "v <s 0 \<or> maxBalance <s v")
    case True
    then show ?thesis using assms Some by (simp add: handleSetBudget_def http_Error_def)
  next
    case valid: False
    show ?thesis
    proof (cases "save_fault e")
      case None
      show ?thesis
        unfolding handleSetBudget_accepted [OF assms(1) Some valid None]
        by (simp add: logTransaction_def set_balance_def set_budget_def)
    next
      case (Some f)
      from handleSetBudget_save_failed [OF assms(1) \<open>Body r = Some v\<close> valid Some, of w]
      show ?thesis using assms(2) by (auto simp: http_Error_def)
    qed
  qed
qed

lemma serve_200:
  assumes "rt \<noteq> RouteGet" and "Method r = ''POST''" and "status (snd (serve rt e r w)) = 200"
  shows "dbFile (fst (serve rt e r w)) =
      Some (PutUint32 (balance (server (fst (serve rt e r w)))) @
            PutUint32 (budget (server (fst (serve rt e r w)))))"
proof -
  have passed: "serve rt e r w = route_handler rt e r w"
    using assms(2,3)
    by (auto simp: serve_def authMiddleware_def Let_def http_Error_def split: if_splits)
  show ?thesis
    using assms handleSet_200 [of r e w] handleSpend_200 [of r e w] handleSetBudget_200 [of r e w]
    unfolding passed by (cases rt) (simp_all add: route_handler_def)
qed

lemma serve_all_nth:
  "i < length reqs \<Longrightarrow>
   \<exists>w0. serve_all w reqs ! i =
     serve (fst (reqs ! i)) (fst (snd (reqs ! i))) (snd (snd (reqs ! i))) w0"
proof (induction reqs arbitrary: w i)
  case Nil
  then show ?case by simp
next
  case (Cons q reqs)
  obtain rt e r where q: "q = (rt, e, r)" by (cases q) auto
  show ?case
  proof (cases i)
    case 0
    then show ?thesis by (auto simp: q Let_def)
  next
    case (Suc j)
    then have "j < length reqs" using Cons.prems by simp
    from Cons.IH [OF this, of "fst (serve rt e r w)"] show ?thesis
      by (simp add: q Suc Let_def)
  qed
qed

text \<open>
  C4. Round trip: the 8 bytes that \<^verbatim>\<open>saveData\<close> writes for an in-memory pair
  (balance, then budget, 4 bytes little endian each) are decoded by \<^verbatim>\<open>loadData\<close> to
  exactly that pair, whatever memory held before the load. And in any sequence of
  requests, after each accepted mutation (a POST on the Set, Spend or Set-budget route
  answered 200) the state file is those 8 bytes for the in-memory pair at that point,
  so that loading it gives exactly that pair.
\<close>

theorem persisted_state_decodes_to_memory:
  "(save_fault e = None \<and> \<not> read_fails e' \<longrightarrow>
      dbFile (fst (saveData e w)) =
        Some (PutUint32 (balance (server w)) @ PutUint32 (budget (server w))) \<and>
      length (PutUint32 (balance (server w)) @ PutUint32 (budget (server w))) = 8 \<and>
      loadData e' (u\<lparr>dbFile := dbFile (fst (saveData e w))\<rparr>) =
        (set_budget (budget (server w)) (set_balance (balance (server w))
           (u\<lparr>dbFile := dbFile (fst (saveData e w))\<rparr>)), None)) \<and>
   (i < length reqs \<and> reqs ! i = (rt, e, r) \<and> rt \<noteq> RouteGet \<and> Method r = ''POST'' \<and>
    status (snd (serve_all w reqs ! i)) = 200 \<and> \<not> read_fails e' \<longrightarrow>
      (let w' = fst (serve_all w reqs ! i) in
         dbFile w' = Some (PutUint32 (balance (server w')) @ PutUint32 (budget (server w'))) \<and>
         balance (server (fst (loadData e' (u\<lparr>dbFile := dbFile w'\<rparr>)))) = balance (server w') \<and>
         budget (server (fst (loadData e' (u\<lparr>dbFile := dbFile w'\<rparr>)))) = budget (server w') \<and>
         snd (loadData e' (u\<lparr>dbFile := dbFile w'\<rparr>)) = None))"
proof (intro conjI impI)
  assume a: "save_fault e = None \<and> \<not> read_fails e'"
  then show "dbFile (fst (saveData e w)) =
      Some (PutUint32 (balance (server w)) @ PutUint32 (budget (server w)))"
    by (simp add: saveData_ok)
  show "length (PutUint32 (balance (server w)) @ PutUint32 (budget (server w))) = 8"
    by (simp add: length_PutUint32)
  show "loadData e' (u\<lparr>dbFile := dbFile (fst (saveData e w))\<rparr>) =
      (set_budget (budget (server w)) (set_balance (balance (server w))
         (u\<lparr>dbFile := dbFile (fst (saveData e w))\<rparr>)), None)"
    using a by (intro loadData_eight) (simp_all add: saveData_ok)
next
  assume a: "i < length reqs \<and> reqs ! i = (rt, e, r) \<and> rt \<noteq> RouteGet \<and> Method r = ''POST'' \<and>
    status (snd (serve_all w reqs ! i)) = 200 \<and> \<not> read_fails e'"
  then obtain w0 where step: "serve_all w reqs ! i = serve rt e r w0"
    using serve_all_nth [of i reqs w] by auto
  let ?w' = "fst (serve rt e r w0)"
  have written: "dbFile ?w' =
      Some (PutUint32 (balance (server ?w')) @ PutUint32 (budget (server ?w')))"
    using a serve_200 [of rt r e w0] by (simp add: step)
  have "dbFile (u\<lparr>dbFile := dbFile ?w'\<rparr>) =
      Some (PutUint32 (balance (server ?w')) @ PutUint32 (budget (server ?w')))"
    using written by simp
  from loadData_eight [OF _ this, of e'] a
  have "loadData e' (u\<lparr>dbFile := dbFile ?w'\<rparr>) =
      (set_budget (budget (server ?w')) (set_balance (balance (server ?w'))
         (u\<lparr>dbFile := dbFile ?w'\<rparr>)), None)"
    by simp
  then show "let w' = fst (serve_all w reqs ! i) in
      dbFile w' = Some (PutUint32 (balance (server w')) @ PutUint32 (budget (server w'))) \<and>
      balance (server (fst (loadData e' (u\<lparr>dbFile := dbFile w'\<rparr>)))) = balance (server w') \<and>
      budget (server (fst (loadData e' (u\<lparr>dbFile := dbFile w'\<rparr>)))) = budget (server w') \<and>
      snd (loadData e' (u\<lparr>dbFile := dbFile w'\<rparr>)) = None"
    using written unfolding step Let_def
    by (simp add: set_budget_def set_balance_def)
qed

theorem persisted_state_decodes_to_memory_witness:
  "2 < length example_requests \<and>
   example_requests ! 2 = (RouteSetBudget, quiet_env, post ''PAUL'' 150) \<and>
   RouteSetBudget \<noteq> RouteGet \<and> Method (post ''PAUL'' 150) = ''POST'' \<and>
   status (snd (serve_all fresh_start example_requests ! 2)) = 200 \<and>
   \<not> read_fails quiet_env \<and>
   balance (server (fst (serve_all fresh_start example_requests ! 2))) = 1140 \<and>
   budget (server (fst (serve_all fresh_start example_requests ! 2))) = 150 \<and>
   dbFile (fst (serve_all fresh_start example_requests ! 2)) =
     Some [116, 4, 0, 0, 150, 0, 0, 0] \<and>
   balance (server (fst (loadData quiet_env
     (fresh_start\<lparr>dbFile := dbFile (fst (serve_all fresh_start example_requests ! 2))\<rparr>))))
       = 1140 \<and>
   budget (server (fst (loadData quiet_env
     (fresh_start\<lparr>dbFile := dbFile (fst (serve_all fresh_start example_requests ! 2))\<rparr>))))
       = 150"
proof -
  have reqs: "2 < length example_requests"
    "example_requests ! 2 = (RouteSetBudget, quiet_env, post ''PAUL'' 150)"
    by (simp_all add: example_requests_def)
  have mem: "status (snd (serve_all fresh_start example_requests ! 2)) = 200"
    "balance (server (fst (serve_all fresh_start example_requests ! 2))) = 1140"
    "budget (server (fst (serve_all fresh_start example_requests ! 2))) = 150"
    by (simp_all add: example_requests_def eval_defs)
  have hyp: "2 < length example_requests \<and>
      example_requests ! 2 = (RouteSetBudget, quiet_env, post ''PAUL'' 150) \<and>
      RouteSetBudget \<noteq> RouteGet \<and> Method (post ''PAUL'' 150) = ''POST'' \<and>
      status (snd (serve_all fresh_start example_requests ! 2)) = 200 \<and>
      \<not> read_fails quiet_env"
    using reqs mem(1) by (simp add: post_def quiet_env_def)
  have bytes: "PutUint32 1140 @ PutUint32 150 = [116, 4, 0, 0, 150, 0, 0, 0]"
    by (simp add: PutUint32_def)
  note t = persisted_state_decodes_to_memory [where e = quiet_env and e' = quiet_env
      and w = fresh_start and u = fresh_start and i = 2 and reqs = example_requests
      and rt = RouteSetBudget and r = "post ''PAUL'' 150", THEN conjunct2, THEN mp, OF hyp]
  note t' = t [unfolded Let_def mem bytes]
  show ?thesis
    by (intro conjI)
      (rule reqs mem t' [THEN conjunct1] t' [THEN conjunct2, THEN conjunct1]
         t' [THEN conjunct2, THEN conjunct2, THEN conjunct1]
       | simp add: post_def quiet_env_def)+
qed

subsection \<open>The balance cap and int32 overflow\<close>

text \<open>
  C1 at a concrete run. From an empty start, an allowlisted user sets the balance to
  \<open>maxBalance\<close> and then spends \<open>-100000000\<close> twice. All three requests are answered
  200; after the second the balance is 2100000000, above \<open>maxBalance\<close>; after the third
  the int32 subtraction has wrapped to \<open>-2094967296\<close>. In the second run a Set-budget of
  2000000000 on balance 2000000000, budget 0 is answered 200 and wraps the balance to
  \<open>-294967296\<close>.
\<close>

theorem spend_beyond_cap_wraps:
  "map (\<lambda>(w, resp). (status resp, sint (balance (server w))))
     (serve_all fresh_start spend_overflow_requests) =
       [(200, 2000000000), (200, 2100000000), (200, - 2094967296)] \<and>
   map (\<lambda>(w, resp). (status resp, sint (balance (server w))))
     (serve_all fresh_start budget_overflow_requests) =
       [(200, 2000000000), (200, - 294967296)] \<and>
   sint maxBalance = 2000000000"
  by (simp add: spend_overflow_requests_def budget_overflow_requests_def eval_defs)

text \<open>
  C3 at two concrete runs. Set 2000000000 and then Set-budget 2000000000 (old budget 0):
  both are answered 200, and the balance is \<open>-294967296\<close> where \<open>B + (b - oldB)\<close> is
  4000000000. Set-budget 100, Set 2000000000, Spend \<open>-100000000\<close>, Spend \<open>-47483640\<close> and
  then Set-budget 150 (from 100): all are answered 200, and the last step takes the
  balance from 2147483640 to \<open>-2147483606\<close> where \<open>B + 50\<close> is 2147483690.
\<close>

theorem set_budget_wraps_balance:
  "map (\<lambda>(w, resp). (status resp, sint (balance (server w)), sint (budget (server w))))
     (serve_all fresh_start budget_overflow_requests) =
       [(200, 2000000000, 0), (200, - 294967296, 2000000000)] \<and>
   map (\<lambda>(w, resp). (status resp, sint (balance (server w)), sint (budget (server w))))
     (serve_all fresh_start budget_step_requests) =
       [(200, 100, 100), (200, 2000000000, 100), (200, 2100000000, 100),
        (200, 2147483640, 100), (200, - 2147483606, 150)]"
  by (simp add: budget_overflow_requests_def budget_step_requests_def eval_defs)

text \<open>
  C6 at a concrete run. Set \<open>-2147483648\<close> and then Spend 1, an amount inside the cap:
  both are answered 200, and the balance is 2147483647 where \<open>balance - amount\<close> is
  \<open>-2147483649\<close>.
\<close>

theorem spend_below_int32_wraps:
  "map (\<lambda>(w, resp). (status resp, sint (balance (server w))))
     (serve_all fresh_start spend_underflow_requests) =
       [(200, - 2147483648), (200, 2147483647)]"
  by (simp add: spend_underflow_requests_def eval_defs)

end
